theory Spec2Isabelle
  imports Main "HOL-Library.Word"
begin

section \<open>Raw handle values\<close>

text \<open>
  Every raw type of \<^verbatim>\<open>handle.hpp\<close> (\<^verbatim>\<open>HANDLE\<close>, \<^verbatim>\<open>SOCKET\<close>, \<^verbatim>\<open>HKEY\<close>, \<^verbatim>\<open>HWND\<close>, ...) is one
  pointer-sized machine word; the model takes the 64-bit target.
\<close>

type_synonym HANDLE = "64 word"

definition nullptr :: HANDLE where
  "nullptr = 0"

text \<open>
  Modelled from the spec: the macro \<^verbatim>\<open>INVALID_HANDLE_VALUE\<close> comes from \<^verbatim>\<open>windows.h\<close>, which is
  not part of the repository; the spec calls it the all-ones sentinel value.
\<close>

definition INVALID_HANDLE_VALUE :: HANDLE where
  "INVALID_HANDLE_VALUE = - 1"

section \<open>Tags and the two sentinel families\<close>

text \<open>
  The structs of \<^verbatim>\<open>namespace HandleType\<close>. A template argument \<^verbatim>\<open>_Tag\<close> may be any type, so
  \<open>OtherTag\<close> stands for every type outside the namespace.
\<close>

datatype HandleType =
    Event | Mutex | Semaphore | Process | Thread | IoCompletionPort | Job | WaitableTimer
  | File | NamedPipe | MailSlot | FileMapping | Snapshot
  | OtherTag string

definition HandleValueNull :: "HandleType \<Rightarrow> bool" where
  "HandleValueNull tag \<longleftrightarrow>
     tag = Event \<or> tag = Mutex \<or> tag = Process \<or> tag = Thread \<or> tag = Job \<or>
     tag = WaitableTimer \<or> tag = IoCompletionPort"

definition HandleValueInvalid :: "HandleType \<Rightarrow> bool" where
  "HandleValueInvalid tag \<longleftrightarrow>
     tag = File \<or> tag = NamedPipe \<or> tag = FileMapping \<or> tag = MailSlot \<or> tag = Snapshot"

text \<open>
  What the compiler can answer instead of a value: a failed \<^verbatim>\<open>static_assert\<close> with its message,
  or the use of a class template that is declared and never defined.
\<close>

datatype build_error = StaticAssert string | IncompleteType

text \<open>\<^verbatim>\<open>TaggedHandle<_Tag>::GetHandleInvalidValue\<close>: the \<^verbatim>\<open>if constexpr\<close> chain, in its order.\<close>

definition GetHandleInvalidValue :: "HandleType \<Rightarrow> build_error + HANDLE" where
  "GetHandleInvalidValue tag =
     (if HandleValueNull tag then Inr nullptr
      else if HandleValueInvalid tag then Inr INVALID_HANDLE_VALUE
      else Inl (StaticAssert ''Unhandled handle type''))"

section \<open>The trait resolver\<close>

text \<open>The types \<^verbatim>\<open>Handle<_Ty>\<close> is instantiated with; \<open>OtherType\<close> is any type with no specialization.\<close>

datatype handle_type =
    TaggedHandle HandleType
  | SOCKET | HKEY | HWND | HMENU | HICON | HDC | HBITMAP | HPEN | HBRUSH | HPALETTE | HINSTANCE
  | OtherType string

text \<open>The operating-system routines that the traits call to release a handle.\<close>

datatype close_function =
    CloseHandle | closesocket | RegCloseKey | DestroyWindow | DestroyMenu | DestroyIcon
  | DeleteDC | DeleteObject | FreeLibrary

text \<open>
  A resolved \<^verbatim>\<open>HandleTraits<_Ty>\<close>: its static member \<^verbatim>\<open>InvalidHandleValue\<close> and the routine its
  \<^verbatim>\<open>Close\<close> forwards to. \<^verbatim>\<open>Valid\<close> has the same body in every specialization.
\<close>

record traits =
  InvalidHandleValue :: HANDLE
  CloseFunction :: close_function

definition CREATE_HANDLE_TRAITS :: "HANDLE \<Rightarrow> close_function \<Rightarrow> traits" where
  "CREATE_HANDLE_TRAITS invalidHandleValue handleCloseFunction =
     \<lparr>InvalidHandleValue = invalidHandleValue, CloseFunction = handleCloseFunction\<rparr>"

text \<open>The eleven explicit specializations stamped out by the macro, in the order of the header.\<close>

definition explicit_specializations :: "(handle_type \<times> traits) list" where
  "explicit_specializations =
     [(SOCKET,    CREATE_HANDLE_TRAITS 0       closesocket),
      (HKEY,      CREATE_HANDLE_TRAITS nullptr RegCloseKey),
      (HWND,      CREATE_HANDLE_TRAITS nullptr DestroyWindow),
      (HMENU,     CREATE_HANDLE_TRAITS nullptr DestroyMenu),
      (HICON,     CREATE_HANDLE_TRAITS nullptr DestroyIcon),
      (HDC,       CREATE_HANDLE_TRAITS nullptr DeleteDC),
      (HBITMAP,   CREATE_HANDLE_TRAITS nullptr DeleteObject),
      (HPEN,      CREATE_HANDLE_TRAITS nullptr DeleteObject),
      (HBRUSH,    CREATE_HANDLE_TRAITS nullptr DeleteObject),
      (HPALETTE,  CREATE_HANDLE_TRAITS nullptr DeleteObject),
      (HINSTANCE, CREATE_HANDLE_TRAITS nullptr FreeLibrary)]"

text \<open>
  Template resolution of \<^verbatim>\<open>HandleTraits<_Ty>\<close>: the partial specialization for
  \<^verbatim>\<open>TaggedHandle<_Tag>\<close> (sentinel from \<^verbatim>\<open>GetHandleInvalidValue\<close>, release by \<^verbatim>\<open>::CloseHandle\<close>), then
  the explicit specializations; the primary template is only declared. The result is the
  traits with all their members instantiated, so it is an error as soon as the sentinel is
  one. Members are instantiated one by one, on use: \<open>instantiate_traits_member\<close> below says
  which of them a program can name.
\<close>

definition HandleTraits :: "handle_type \<Rightarrow> build_error + traits" where
  "HandleTraits ty =
     (case ty of
        TaggedHandle tag \<Rightarrow>
          (case GetHandleInvalidValue tag of
             Inl e \<Rightarrow> Inl e
           | Inr v \<Rightarrow> Inr \<lparr>InvalidHandleValue = v, CloseFunction = CloseHandle\<rparr>)
      | _ \<Rightarrow>
          (case map_of explicit_specializations ty of
             Some T \<Rightarrow> Inr T
           | None \<Rightarrow> Inl IncompleteType))"

definition Traits_Valid :: "traits \<Rightarrow> HANDLE \<Rightarrow> bool" where
  "Traits_Valid T handle \<longleftrightarrow> handle \<noteq> InvalidHandleValue T"

section \<open>The owning wrapper\<close>

text \<open>
  The wrapper has the one field \<^verbatim>\<open>m_Handle\<close>. Its only effect on the world is the call of the
  release routine, so the state carries the log of those calls, oldest first. Copy construction
  and copy assignment are deleted in the source and have no counterpart here; the two
  address-of operators, which hand out a pointer to the field, are left out as well.
\<close>

type_synonym release_call = "close_function \<times> HANDLE"

record Handle =
  m_Handle :: HANDLE
  released :: "release_call list"

definition Traits_Close :: "traits \<Rightarrow> HANDLE \<Rightarrow> release_call list \<Rightarrow> release_call list" where
  "Traits_Close T handle log = log @ [(CloseFunction T, handle)]"

text \<open>\<^verbatim>\<open>Handle(Type handle = Traits::InvalidHandleValue)\<close>, with and without its argument.\<close>

definition Handle_ctor :: "HANDLE \<Rightarrow> release_call list \<Rightarrow> Handle" where
  "Handle_ctor handle log = \<lparr>m_Handle = handle, released = log\<rparr>"

definition Handle_default :: "traits \<Rightarrow> release_call list \<Rightarrow> Handle" where
  "Handle_default T log = Handle_ctor (InvalidHandleValue T) log"

text \<open>Methods return their result together with the wrapper state after the call.\<close>

definition Valid :: "traits \<Rightarrow> Handle \<Rightarrow> bool \<times> Handle" where
  "Valid T h = (Traits_Valid T (m_Handle h), h)"

definition Close :: "traits \<Rightarrow> Handle \<Rightarrow> Handle" where
  "Close T h =
     (if Traits_Valid T (m_Handle h)
      then h\<lparr>released := Traits_Close T (m_Handle h) (released h),
             m_Handle := InvalidHandleValue T\<rparr>
      else h)"

definition operator_assign :: "traits \<Rightarrow> HANDLE \<Rightarrow> Handle \<Rightarrow> Handle" where
  "operator_assign T handle h =
     (let (valid, h1) = Valid T h;
          h2 = (if valid then Close T h1 else h1)
      in h2\<lparr>m_Handle := handle\<rparr>)"

text \<open>The destructor ends the wrapper; what is left is the log of release calls.\<close>

definition Handle_dtor :: "traits \<Rightarrow> Handle \<Rightarrow> release_call list" where
  "Handle_dtor T h = released (Close T h)"

definition operator_Type :: "Handle \<Rightarrow> HANDLE \<times> Handle" where
  "operator_Type h = (m_Handle h, h)"

definition Get :: "Handle \<Rightarrow> HANDLE \<times> Handle" where
  "Get h = (m_Handle h, h)"

section \<open>What a build instantiates\<close>

text \<open>
  Inside \<^verbatim>\<open>Handle<_Ty>\<close> the name \<^verbatim>\<open>Traits\<close> is an alias, and the default argument of the
  constructor and the bodies of the member functions are instantiated only when a program uses
  them. The three static members of a traits class:
  \<^item> in the partial specialization for \<^verbatim>\<open>TaggedHandle<_Tag>\<close>, \<^verbatim>\<open>InvalidHandleValue\<close> is initialised
    by \<^verbatim>\<open>GetHandleInvalidValue()\<close>, \<^verbatim>\<open>Valid\<close> compares with it, and \<^verbatim>\<open>Close\<close> only calls
    \<^verbatim>\<open>::CloseHandle\<close>;
  \<^item> an explicit specialization defines all three;
  \<^item> for any other type the primary template is incomplete and no member can be named.
\<close>

datatype traits_member = InvalidHandleValue_member | Close_member | Valid_member

definition instantiate_traits_member :: "handle_type \<Rightarrow> traits_member \<Rightarrow> build_error + unit" where
  "instantiate_traits_member ty tm =
     (case ty of
        TaggedHandle tag \<Rightarrow>
          (case tm of
             InvalidHandleValue_member \<Rightarrow>
               (case GetHandleInvalidValue tag of Inl e \<Rightarrow> Inl e | Inr v \<Rightarrow> Inr ())
           | Close_member \<Rightarrow> Inr ()
           | Valid_member \<Rightarrow>
               (case GetHandleInvalidValue tag of Inl e \<Rightarrow> Inl e | Inr v \<Rightarrow> Inr ()))
      | _ \<Rightarrow>
          (case map_of explicit_specializations ty of
             Some T \<Rightarrow> Inr ()
           | None \<Rightarrow> Inl IncompleteType))"

text \<open>
  The members of \<^verbatim>\<open>Handle<_Ty>\<close> a program can use, and the traits members each of them names,
  in the order of its body: the constructor without its argument evaluates the default
  argument; \<^verbatim>\<open>operator=\<close> calls \<^verbatim>\<open>Valid()\<close> and \<^verbatim>\<open>Close()\<close>; the destructor calls \<^verbatim>\<open>Close()\<close>; the
  constructor from a raw value, the conversion, \<^verbatim>\<open>Get\<close> and the address-of operators name none.
\<close>

datatype Handle_member =
    M_ctor_default | M_ctor_raw | M_assign | M_dtor | M_Valid | M_Close
  | M_operator_Type | M_Get | M_address_of

fun traits_used :: "Handle_member \<Rightarrow> traits_member list" where
  "traits_used M_ctor_default = [InvalidHandleValue_member]"
| "traits_used M_ctor_raw = []"
| "traits_used M_assign =
     [Valid_member, Valid_member, Close_member, InvalidHandleValue_member]"
| "traits_used M_dtor = [Valid_member, Close_member, InvalidHandleValue_member]"
| "traits_used M_Valid = [Valid_member]"
| "traits_used M_Close = [Valid_member, Close_member, InvalidHandleValue_member]"
| "traits_used M_operator_Type = []"
| "traits_used M_Get = []"
| "traits_used M_address_of = []"

fun first_error :: "(build_error + unit) list \<Rightarrow> build_error + unit" where
  "first_error [] = Inr ()"
| "first_error (Inl e # rs) = Inl e"
| "first_error (Inr u # rs) = first_error rs"

definition instantiate_member :: "handle_type \<Rightarrow> Handle_member \<Rightarrow> build_error + unit" where
  "instantiate_member ty m = first_error (map (instantiate_traits_member ty) (traits_used m))"

text \<open>The build of a program that uses the members \<open>ms\<close> of \<^verbatim>\<open>Handle<_Ty>\<close>.\<close>

definition build :: "handle_type \<Rightarrow> Handle_member list \<Rightarrow> build_error + unit" where
  "build ty ms = first_error (map (instantiate_member ty) ms)"

text \<open>
  Construction of a wrapper of type \<^verbatim>\<open>Handle<_Ty>\<close>. Without an argument it needs the sentinel of
  the resolved traits; from a raw value it needs what \<open>M_ctor_raw\<close> names, which is nothing.
\<close>

definition instantiate_default :: "handle_type \<Rightarrow> release_call list \<Rightarrow> build_error + Handle" where
  "instantiate_default ty log =
     (case HandleTraits ty of Inl e \<Rightarrow> Inl e | Inr T \<Rightarrow> Inr (Handle_default T log))"

definition instantiate_from :: "handle_type \<Rightarrow> HANDLE \<Rightarrow> release_call list \<Rightarrow> build_error + Handle" where
  "instantiate_from ty handle log =
     (case instantiate_member ty M_ctor_raw of
        Inl e \<Rightarrow> Inl e
      | Inr u \<Rightarrow> Inr (Handle_ctor handle log))"

section \<open>Sequences of operations on one wrapper\<close>

datatype operation = OpClose | OpAssign HANDLE

fun step :: "traits \<Rightarrow> operation \<Rightarrow> Handle \<Rightarrow> Handle" where
  "step T OpClose h = Close T h"
| "step T (OpAssign handle) h = operator_assign T handle h"

fun run :: "traits \<Rightarrow> operation list \<Rightarrow> Handle \<Rightarrow> Handle" where
  "run T [] h = h"
| "run T (x # xs) h = run T xs (step T x h)"

text \<open>A whole life: construction from a raw value, the operations, destruction.\<close>

definition lifetime :: "traits \<Rightarrow> HANDLE \<Rightarrow> operation list \<Rightarrow> release_call list \<Rightarrow> release_call list" where
  "lifetime T raw ops log = Handle_dtor T (run T ops (Handle_ctor raw log))"

text \<open>The raw values an operation hands to the wrapper, and the release calls they are owed.\<close>

fun adopts :: "operation \<Rightarrow> HANDLE list" where
  "adopts OpClose = []"
| "adopts (OpAssign handle) = [handle]"

definition adopted :: "HANDLE \<Rightarrow> operation list \<Rightarrow> HANDLE list" where
  "adopted raw ops = raw # concat (map adopts ops)"

definition releases :: "traits \<Rightarrow> HANDLE list \<Rightarrow> release_call list" where
  "releases T hs = map (Pair (CloseFunction T)) (filter (Traits_Valid T) hs)"

text \<open>The release call still owed for the value the wrapper holds now.\<close>

definition owed :: "traits \<Rightarrow> Handle \<Rightarrow> release_call list" where
  "owed T h = releases T [m_Handle h]"

section \<open>Registered categories\<close>

text \<open>
  Membership of \<^verbatim>\<open>_Ty\<close> in one of the two sentinel families: it is a \<^verbatim>\<open>TaggedHandle\<close> whose tag
  satisfies one of the two concepts.
\<close>

definition in_sentinel_family :: "handle_type \<Rightarrow> bool" where
  "in_sentinel_family ty =
     (case ty of TaggedHandle tag \<Rightarrow> HandleValueNull tag \<or> HandleValueInvalid tag | _ \<Rightarrow> False)"

text \<open>The tags that satisfy one of the two concepts, family by family.\<close>

definition tagged_categories :: "HandleType list" where
  "tagged_categories =
     [Event, Mutex, Process, Thread, Job, WaitableTimer, IoCompletionPort,
      File, NamedPipe, MailSlot, FileMapping, Snapshot]"

lemmas model_defs =
  nullptr_def INVALID_HANDLE_VALUE_def Traits_Valid_def Traits_Close_def Handle_ctor_def
  Handle_default_def Valid_def Close_def operator_assign_def Handle_dtor_def

section \<open>The resolver\<close>

lemma sentinels_differ: "nullptr \<noteq> INVALID_HANDLE_VALUE"
  by (simp add: nullptr_def INVALID_HANDLE_VALUE_def)

lemma HandleTraits_null_family:
  "HandleValueNull tag \<Longrightarrow>
   HandleTraits (TaggedHandle tag) = Inr \<lparr>InvalidHandleValue = nullptr, CloseFunction = CloseHandle\<rparr>"
  by (simp add: HandleTraits_def GetHandleInvalidValue_def)

lemma HandleTraits_invalid_family:
  "HandleValueInvalid tag \<Longrightarrow>
   HandleTraits (TaggedHandle tag) =
     Inr \<lparr>InvalidHandleValue = INVALID_HANDLE_VALUE, CloseFunction = CloseHandle\<rparr>"
  by (auto simp add: HandleTraits_def GetHandleInvalidValue_def HandleValueNull_def
      HandleValueInvalid_def)

lemma null_family_default_invalid:
  "tag \<in> {Event, Mutex, Process, Thread, Job, WaitableTimer, IoCompletionPort} \<Longrightarrow>
   GetHandleInvalidValue tag = Inr nullptr \<and>
   (\<exists>T. HandleTraits (TaggedHandle tag) = Inr T \<and> InvalidHandleValue T = nullptr \<and>
        instantiate_default (TaggedHandle tag) log = Inr (Handle_default T log) \<and>
        m_Handle (Handle_default T log) = nullptr \<and>
        \<not> fst (Valid T (Handle_default T log)))"
  by (auto simp add: instantiate_default_def HandleTraits_def GetHandleInvalidValue_def
      HandleValueNull_def Handle_default_def Handle_ctor_def Valid_def Traits_Valid_def)

text \<open>
  Claim C1. The spec puts Semaphore in the null family together with Event, Mutex, Process,
  Thread, Job, WaitableTimer and IoCompletionPort, and so does the header's own comment on
  \<^verbatim>\<open>namespace HandleType\<close>. The concept \<^verbatim>\<open>HandleValueNull\<close> leaves Semaphore out: for that
  category the resolver yields no sentinel at all, it stops the build with the
  \<^verbatim>\<open>static_assert\<close>, and no default-constructed \<^verbatim>\<open>SemaphoreHandle\<close> exists.
\<close>

theorem semaphore_has_no_sentinel:
  "\<not> HandleValueNull Semaphore \<and>
   GetHandleInvalidValue Semaphore = Inl (StaticAssert ''Unhandled handle type'') \<and>
   HandleTraits (TaggedHandle Semaphore) = Inl (StaticAssert ''Unhandled handle type'') \<and>
   instantiate_default (TaggedHandle Semaphore) [] = Inl (StaticAssert ''Unhandled handle type'')"
  by (simp add: instantiate_default_def HandleTraits_def GetHandleInvalidValue_def
      HandleValueNull_def HandleValueInvalid_def)


section \<open>Close, assignment and destruction\<close>

lemma Close_valid:
  "Traits_Valid T (m_Handle h) \<Longrightarrow>
   Close T h = \<lparr>m_Handle = InvalidHandleValue T,
                released = released h @ [(CloseFunction T, m_Handle h)]\<rparr>"
  by (simp add: Close_def Traits_Close_def)

lemma Close_invalid: "\<not> Traits_Valid T (m_Handle h) \<Longrightarrow> Close T h = h"
  by (simp add: Close_def)

lemma Close_not_Valid: "\<not> Traits_Valid T (m_Handle (Close T h))"
  by (simp add: Close_def Traits_Valid_def)

lemma Close_released: "released (Close T h) = released h @ owed T h"
  by (simp add: Close_def Traits_Close_def owed_def releases_def)

lemma Close_funpow_invalid: "\<not> Traits_Valid T (m_Handle h) \<Longrightarrow> (Close T ^^ n) h = h"
  by (induction n) (simp_all add: Close_invalid)

lemma operator_assign_Close: "operator_assign T handle h = (Close T h)\<lparr>m_Handle := handle\<rparr>"
  by (simp add: operator_assign_def Valid_def Close_def)

lemma operator_assign_released: "released (operator_assign T handle h) = released h @ owed T h"
  by (simp add: operator_assign_Close Close_released)

lemma operator_assign_m_Handle: "m_Handle (operator_assign T handle h) = handle"
  by (simp add: operator_assign_Close)

lemma owed_valid: "Traits_Valid T (m_Handle h) \<Longrightarrow> owed T h = [(CloseFunction T, m_Handle h)]"
  by (simp add: owed_def releases_def)

lemma owed_invalid: "\<not> Traits_Valid T (m_Handle h) \<Longrightarrow> owed T h = []"
  by (simp add: owed_def releases_def)

lemma releases_append: "releases T (xs @ ys) = releases T xs @ releases T ys"
  by (simp add: releases_def)

lemma step_released: "released (step T x h) = released h @ owed T h"
  by (cases x) (simp_all add: Close_released operator_assign_released)

lemma step_owed: "owed T (step T x h) = (case x of OpClose \<Rightarrow> [] | OpAssign handle \<Rightarrow> releases T [handle])"
  by (cases x) (simp_all add: owed_def releases_def operator_assign_m_Handle Close_def Traits_Valid_def)

lemma step_balance:
  "released (step T x h) @ owed T (step T x h) = (released h @ owed T h) @ releases T (adopts x)"
  by (simp only: step_released step_owed) (cases x; simp add: releases_def)

lemma run_balance:
  "released (run T ops h) @ owed T (run T ops h) =
   (released h @ owed T h) @ releases T (concat (map adopts ops))"
proof (induction ops arbitrary: h)
  case Nil
  show ?case by (simp add: releases_def)
next
  case (Cons x xs)
  show ?case
    by (simp add: Cons.IH step_balance releases_append)
qed

lemma Handle_dtor_released: "Handle_dtor T h = released h @ owed T h"
  by (simp add: Handle_dtor_def Close_released)

lemma lifetime_releases: "lifetime T raw ops log = log @ releases T (adopted raw ops)"
proof -
  have "lifetime T raw ops log =
        (released (Handle_ctor raw log) @ owed T (Handle_ctor raw log)) @
        releases T (concat (map adopts ops))"
    by (simp add: lifetime_def Handle_dtor_released run_balance)
  also have "\<dots> = log @ releases T (adopted raw ops)"
    by (simp add: Handle_ctor_def owed_def adopted_def releases_def)
  finally show ?thesis .
qed

lemma count_list_Pair: "count_list (map (Pair c) xs) (c, v) = count_list xs v"
  by (induction xs) simp_all

lemma count_list_filter: "P v \<Longrightarrow> count_list (filter P xs) v = count_list xs v"
  by (induction xs) auto

lemma count_releases:
  "Traits_Valid T v \<Longrightarrow> count_list (releases T hs) (CloseFunction T, v) = count_list hs v"
  by (simp add: releases_def count_list_Pair count_list_filter)

lemma count_list_distinct: "distinct xs \<Longrightarrow> v \<in> set xs \<Longrightarrow> count_list xs v = 1"
  by (induction xs) (auto simp add: count_list_0_iff)

text \<open>
  Claim C2, as the code has it. Over a whole life of a wrapper (construction from \<open>raw\<close>, any
  list of Close and assignment operations, destruction) the release calls are exactly the
  non-sentinel values adopted, in the order of their adoption: one call per adoption. The call
  for the value held is made by the very next operation, whichever it is (Close, an assignment
  or the destructor appends \<open>owed\<close>, the call for the value held, and nothing else), and after a
  Close nothing is owed. Hence a value is released as often as it was adopted: exactly once when
  the adopted values are distinct, and never when it is the sentinel.
\<close>

theorem lifetime_releases_each_adoption:
  "lifetime T raw ops log = log @ releases T (adopted raw ops) \<and>
   released (run T ops (Handle_ctor raw log)) @ owed T (run T ops (Handle_ctor raw log)) =
     log @ releases T (adopted raw ops) \<and>
   owed T (Handle_ctor handle log) = releases T [handle] \<and>
   owed T (operator_assign T handle h) = releases T [handle] \<and>
   owed T (Close T h) = [] \<and>
   released (step T x h) = released h @ owed T h \<and>
   Handle_dtor T h = released h @ owed T h \<and>
   (Traits_Valid T v \<longrightarrow>
      count_list (lifetime T raw ops []) (CloseFunction T, v) = count_list (adopted raw ops) v) \<and>
   (Traits_Valid T v \<longrightarrow> distinct (adopted raw ops) \<longrightarrow> v \<in> set (adopted raw ops) \<longrightarrow>
      count_list (lifetime T raw ops []) (CloseFunction T, v) = 1) \<and>
   count_list (lifetime T raw ops []) (CloseFunction T, InvalidHandleValue T) = 0"
proof -
  have a: "released (run T ops (Handle_ctor raw log)) @ owed T (run T ops (Handle_ctor raw log)) =
      log @ releases T (adopted raw ops)"
    unfolding run_balance by (simp add: Handle_ctor_def owed_def adopted_def releases_def)
  have b: "owed T (Handle_ctor handle log) = releases T [handle]"
    by (simp add: owed_def Handle_ctor_def)
  have c: "owed T (operator_assign T handle h) = releases T [handle]"
    by (simp add: owed_def operator_assign_m_Handle)
  have d: "owed T (Close T h) = []"
    by (simp add: owed_invalid Close_not_Valid)
  have e: "Traits_Valid T v \<longrightarrow>
      count_list (lifetime T raw ops []) (CloseFunction T, v) = count_list (adopted raw ops) v"
    by (simp add: lifetime_releases count_releases)
  have f: "Traits_Valid T v \<longrightarrow> distinct (adopted raw ops) \<longrightarrow> v \<in> set (adopted raw ops) \<longrightarrow>
      count_list (lifetime T raw ops []) (CloseFunction T, v) = 1"
    by (simp add: lifetime_releases count_releases count_list_distinct)
  have g: "count_list (lifetime T raw ops []) (CloseFunction T, InvalidHandleValue T) = 0"
    by (auto simp add: lifetime_releases releases_def count_list_0_iff Traits_Valid_def)
  show ?thesis
    using a b c d e f g lifetime_releases step_released Handle_dtor_released by blast
qed

theorem lifetime_releases_each_adoption_witness:
  "Traits_Valid \<lparr>InvalidHandleValue = nullptr, CloseFunction = CloseHandle\<rparr> 42 \<and>
   distinct (adopted 42 [OpAssign 7, OpClose, OpAssign nullptr]) \<and>
   42 \<in> set (adopted 42 [OpAssign 7, OpClose, OpAssign nullptr]) \<and>
   lifetime \<lparr>InvalidHandleValue = nullptr, CloseFunction = CloseHandle\<rparr> 42
     [OpAssign 7, OpClose, OpAssign nullptr] [] = [(CloseHandle, 42), (CloseHandle, 7)] \<and>
   count_list (lifetime \<lparr>InvalidHandleValue = nullptr, CloseFunction = CloseHandle\<rparr> 42
     [OpAssign 7, OpClose, OpAssign nullptr] []) (CloseHandle, 42) = 1"
  using lifetime_releases_each_adoption
    [where T = "\<lparr>InvalidHandleValue = nullptr, CloseFunction = CloseHandle\<rparr>"
       and raw = 42 and ops = "[OpAssign 7, OpClose, OpAssign nullptr]" and log = "[]" and v = 42]
  by (simp add: Traits_Valid_def nullptr_def adopted_def releases_def)

text \<open>
  Claim C2 as the spec words it (each adopted value released exactly once and never again) fails
  when a value is adopted a second time: a \<^verbatim>\<open>FileHandle\<close> constructed from 42 and then assigned
  42 releases 42 at the assignment and again at destruction.
\<close>

theorem readopted_value_released_twice:
  "HandleTraits (TaggedHandle File) =
     Inr \<lparr>InvalidHandleValue = INVALID_HANDLE_VALUE, CloseFunction = CloseHandle\<rparr> \<and>
   Traits_Valid \<lparr>InvalidHandleValue = INVALID_HANDLE_VALUE, CloseFunction = CloseHandle\<rparr> 42 \<and>
   lifetime \<lparr>InvalidHandleValue = INVALID_HANDLE_VALUE, CloseFunction = CloseHandle\<rparr> 42
     [OpAssign 42] [] = [(CloseHandle, 42), (CloseHandle, 42)] \<and>
   count_list (lifetime \<lparr>InvalidHandleValue = INVALID_HANDLE_VALUE, CloseFunction = CloseHandle\<rparr>
     42 [OpAssign 42] []) (CloseHandle, 42) \<noteq> 1"
  by (simp add: HandleTraits_def GetHandleInvalidValue_def HandleValueNull_def
      HandleValueInvalid_def Traits_Valid_def INVALID_HANDLE_VALUE_def lifetime_def
      Handle_dtor_def Handle_ctor_def operator_assign_def Valid_def Close_def Traits_Close_def)

section \<open>Single operations\<close>

text \<open>
  Claim C3. Close on a wrapper whose held value differs from the sentinel calls the category's
  release routine once, with the value held before, and leaves the sentinel in the wrapper, so
  that Valid answers false. Close on a wrapper holding the sentinel changes nothing, however
  often it is called: no release call is added and the wrapper stays invalid.
\<close>

theorem Close_releases_once_then_noop:
  assumes "fst (Valid T h)" and "\<not> fst (Valid T g)"
  shows "released (Close T h) = released h @ [(CloseFunction T, m_Handle h)] \<and>
         m_Handle (Close T h) = InvalidHandleValue T \<and>
         \<not> fst (Valid T (Close T h)) \<and>
         (Close T ^^ n) g = g \<and>
         released ((Close T ^^ n) g) = released g \<and>
         \<not> fst (Valid T ((Close T ^^ n) g)) \<and>
         (Close T ^^ n) (Close T h) = Close T h"
proof -
  from assms have v: "Traits_Valid T (m_Handle h)" and i: "\<not> Traits_Valid T (m_Handle g)"
    by (simp_all add: Valid_def)
  have "(Close T ^^ n) (Close T h) = Close T h"
    by (rule Close_funpow_invalid) (rule Close_not_Valid)
  then show ?thesis
    using v i
    by (simp add: Close_valid Close_funpow_invalid Valid_def Traits_Valid_def)
qed

theorem Close_releases_once_then_noop_witness:
  "fst (Valid \<lparr>InvalidHandleValue = nullptr, CloseFunction = CloseHandle\<rparr> (Handle_ctor 42 [])) \<and>
   \<not> fst (Valid \<lparr>InvalidHandleValue = nullptr, CloseFunction = CloseHandle\<rparr> (Handle_ctor nullptr [])) \<and>
   Close \<lparr>InvalidHandleValue = nullptr, CloseFunction = CloseHandle\<rparr> (Handle_ctor 42 []) =
     Handle_ctor nullptr [(CloseHandle, 42)] \<and>
   (Close \<lparr>InvalidHandleValue = nullptr, CloseFunction = CloseHandle\<rparr> ^^ 3) (Handle_ctor nullptr []) =
     Handle_ctor nullptr []"
  using Close_releases_once_then_noop
    [where T = "\<lparr>InvalidHandleValue = nullptr, CloseFunction = CloseHandle\<rparr>"
       and h = "Handle_ctor 42 []" and g = "Handle_ctor nullptr []" and n = 3]
  by (simp add: model_defs)

text \<open>
  Claim C4. Assignment of \<open>raw2\<close> to a wrapper holding a valid \<open>raw1\<close> is Close followed by the
  store of \<open>raw2\<close>: the one release call, on \<open>raw1\<close>, is made while the wrapper does not yet hold
  \<open>raw2\<close>, and afterwards Get returns \<open>raw2\<close>.
\<close>

theorem assign_releases_previous_first:
  assumes "fst (Valid T h)"
  shows "operator_assign T raw2 h = (Close T h)\<lparr>m_Handle := raw2\<rparr> \<and>
         released (Close T h) = released h @ [(CloseFunction T, m_Handle h)] \<and>
         m_Handle (Close T h) = InvalidHandleValue T \<and>
         released (operator_assign T raw2 h) = released h @ [(CloseFunction T, m_Handle h)] \<and>
         m_Handle (operator_assign T raw2 h) = raw2 \<and>
         fst (Get (operator_assign T raw2 h)) = raw2"
proof -
  from assms have v: "Traits_Valid T (m_Handle h)"
    by (simp add: Valid_def)
  then show ?thesis
    by (simp add: operator_assign_Close Close_valid Get_def)
qed

theorem assign_releases_previous_first_witness:
  "fst (Valid \<lparr>InvalidHandleValue = INVALID_HANDLE_VALUE, CloseFunction = CloseHandle\<rparr>
     (Handle_ctor 42 [])) \<and>
   operator_assign \<lparr>InvalidHandleValue = INVALID_HANDLE_VALUE, CloseFunction = CloseHandle\<rparr> 7
     (Handle_ctor 42 []) = Handle_ctor 7 [(CloseHandle, 42)] \<and>
   fst (Get (operator_assign \<lparr>InvalidHandleValue = INVALID_HANDLE_VALUE, CloseFunction = CloseHandle\<rparr> 7
     (Handle_ctor 42 []))) = 7"
  using assign_releases_previous_first
    [where T = "\<lparr>InvalidHandleValue = INVALID_HANDLE_VALUE, CloseFunction = CloseHandle\<rparr>"
       and h = "Handle_ctor 42 []" and ?raw2.0 = 7]
  by (simp add: model_defs Get_def)

text \<open>
  Claim C5. The destructor does what Close does: one release call on the held value when it is
  valid, no release call when the wrapper holds the sentinel.
\<close>

theorem dtor_is_Close:
  assumes "fst (Valid T h)" and "\<not> fst (Valid T g)"
  shows "Handle_dtor T h = released (Close T h) \<and>
         Handle_dtor T g = released (Close T g) \<and>
         Handle_dtor T h = released h @ [(CloseFunction T, m_Handle h)] \<and>
         Handle_dtor T g = released g"
proof -
  from assms have v: "Traits_Valid T (m_Handle h)" and i: "\<not> Traits_Valid T (m_Handle g)"
    by (simp_all add: Valid_def)
  then show ?thesis
    by (simp add: Handle_dtor_def Close_valid Close_invalid)
qed

theorem dtor_is_Close_witness:
  "fst (Valid \<lparr>InvalidHandleValue = nullptr, CloseFunction = CloseHandle\<rparr> (Handle_ctor 42 [])) \<and>
   \<not> fst (Valid \<lparr>InvalidHandleValue = nullptr, CloseFunction = CloseHandle\<rparr> (Handle_ctor nullptr [])) \<and>
   Handle_dtor \<lparr>InvalidHandleValue = nullptr, CloseFunction = CloseHandle\<rparr> (Handle_ctor 42 []) =
     [(CloseHandle, 42)] \<and>
   Handle_dtor \<lparr>InvalidHandleValue = nullptr, CloseFunction = CloseHandle\<rparr> (Handle_ctor nullptr []) = []"
  using dtor_is_Close
    [where T = "\<lparr>InvalidHandleValue = nullptr, CloseFunction = CloseHandle\<rparr>"
       and h = "Handle_ctor 42 []" and g = "Handle_ctor nullptr []"]
  by (simp add: model_defs)



section \<open>Unregistered categories\<close>

lemma first_error_Inr_iff: "first_error rs = Inr () \<longleftrightarrow> (\<forall>r \<in> set rs. r = Inr ())"
  by (induction rs rule: first_error.induct) simp_all

lemma traits_used_empty_iff:
  "traits_used m = [] \<longleftrightarrow> m \<in> {M_ctor_raw, M_operator_Type, M_Get, M_address_of}"
  by (cases m) simp_all

lemma instantiate_member_no_traits: "traits_used m = [] \<Longrightarrow> instantiate_member ty m = Inr ()"
  by (simp add: instantiate_member_def)

lemma HandleTraits_all_members:
  "(\<exists>T. HandleTraits ty = Inr T) \<longleftrightarrow> (\<forall>tm. instantiate_traits_member ty tm = Inr ())"
proof (cases ty)
  case (TaggedHandle tag)
  show ?thesis
  proof (cases "GetHandleInvalidValue tag")
    case (Inl e)
    with TaggedHandle have "instantiate_traits_member ty Valid_member = Inl e"
      by (simp add: instantiate_traits_member_def)
    then have "\<not> (\<forall>tm. instantiate_traits_member ty tm = Inr ())"
      by (metis sum.distinct(1))
    with TaggedHandle Inl show ?thesis
      by (simp add: HandleTraits_def)
  next
    case (Inr v)
    with TaggedHandle show ?thesis
      by (simp add: HandleTraits_def instantiate_traits_member_def split: traits_member.split)
  qed
qed (simp_all add: HandleTraits_def instantiate_traits_member_def split: option.split)

lemma instantiate_default_needs_sentinel:
  "isl (instantiate_default ty log) = isl (instantiate_member ty M_ctor_default)"
  by (cases ty)
    (simp_all add: instantiate_default_def instantiate_member_def instantiate_traits_member_def
      HandleTraits_def split: sum.split option.split)

lemma unregistered_sentinel:
  assumes "map_of explicit_specializations ty = None" and "\<not> in_sentinel_family ty"
  shows "\<exists>e. instantiate_traits_member ty InvalidHandleValue_member = Inl e \<and>
             instantiate_traits_member ty Valid_member = Inl e \<and>
             HandleTraits ty = Inl e"
proof (cases ty)
  case (TaggedHandle tag)
  with assms(2) have "\<not> HandleValueNull tag" and "\<not> HandleValueInvalid tag"
    by (simp_all add: in_sentinel_family_def)
  with TaggedHandle show ?thesis
    by (simp add: instantiate_traits_member_def HandleTraits_def GetHandleInvalidValue_def)
qed (use assms(1) in \<open>simp_all add: instantiate_traits_member_def HandleTraits_def\<close>)

lemma unregistered_member:
  assumes "map_of explicit_specializations ty = None" and "\<not> in_sentinel_family ty"
    and "traits_used m \<noteq> []"
  shows "\<exists>e. instantiate_member ty m = Inl e"
proof -
  from unregistered_sentinel [OF assms(1,2)] obtain e where
    e: "instantiate_traits_member ty InvalidHandleValue_member = Inl e"
       "instantiate_traits_member ty Valid_member = Inl e"
    by blast
  from assms(3) show ?thesis
    by (cases m) (simp_all add: instantiate_member_def e)
qed

text \<open>
  Claim C7, as the code has it. For a type with no explicit specialization of \<^verbatim>\<open>HandleTraits\<close>
  and outside both sentinel families, the build fails wherever a program uses a member that
  names the traits: construction without an argument, \<^verbatim>\<open>Valid\<close>, \<^verbatim>\<open>Close\<close>, assignment and the
  destructor. The constructor from a raw value, the conversion, \<^verbatim>\<open>Get\<close> and address-of name no
  traits member and are instantiated without error, so a program builds exactly when it uses
  no other member. At run time no operation on a wrapper has an error result.
\<close>

theorem unregistered_traits_use_is_build_error:
  assumes "map_of explicit_specializations ty = None" and "\<not> in_sentinel_family ty"
  shows "(\<exists>e. HandleTraits ty = Inl e \<and> instantiate_default ty log = Inl e) \<and>
         (m \<in> {M_ctor_default, M_Valid, M_Close, M_assign, M_dtor} \<longrightarrow>
            (\<exists>e. instantiate_member ty m = Inl e) \<and>
            (m \<in> set ms \<longrightarrow> (\<exists>e. build ty ms = Inl e))) \<and>
         (m \<in> {M_ctor_raw, M_operator_Type, M_Get, M_address_of} \<longrightarrow>
            instantiate_member ty m = Inr ()) \<and>
         (build ty ms = Inr () \<longleftrightarrow>
            set ms \<subseteq> {M_ctor_raw, M_operator_Type, M_Get, M_address_of}) \<and>
         instantiate_from ty raw log = Inr (Handle_ctor raw log)"
proof -
  have member: "instantiate_member ty k = Inr () \<longleftrightarrow> traits_used k = []" for k
  proof
    assume "instantiate_member ty k = Inr ()"
    then show "traits_used k = []"
      using unregistered_member [OF assms, of k] by auto
  qed (rule instantiate_member_no_traits)
  have builds: "build ty ms = Inr () \<longleftrightarrow>
      set ms \<subseteq> {M_ctor_raw, M_operator_Type, M_Get, M_address_of}"
    unfolding build_def first_error_Inr_iff
    using member traits_used_empty_iff by auto
  have a: "\<exists>e. HandleTraits ty = Inl e \<and> instantiate_default ty log = Inl e"
    using unregistered_sentinel [OF assms] by (auto simp add: instantiate_default_def)
  have b: "m \<in> {M_ctor_default, M_Valid, M_Close, M_assign, M_dtor} \<longrightarrow>
      (\<exists>e. instantiate_member ty m = Inl e) \<and>
      (m \<in> set ms \<longrightarrow> (\<exists>e. build ty ms = Inl e))"
  proof
    assume m: "m \<in> {M_ctor_default, M_Valid, M_Close, M_assign, M_dtor}"
    then have u: "traits_used m \<noteq> []"
      by auto
    have "\<exists>e. build ty ms = Inl e" if "m \<in> set ms"
    proof (cases "build ty ms")
      case (Inr u)
      then have "set ms \<subseteq> {M_ctor_raw, M_operator_Type, M_Get, M_address_of}"
        using builds by simp
      with that m show ?thesis
        by auto
    qed simp
    with unregistered_member [OF assms u] show
      "(\<exists>e. instantiate_member ty m = Inl e) \<and>
       (m \<in> set ms \<longrightarrow> (\<exists>e. build ty ms = Inl e))"
      by blast
  qed
  have c: "m \<in> {M_ctor_raw, M_operator_Type, M_Get, M_address_of} \<longrightarrow>
      instantiate_member ty m = Inr ()"
    by (auto simp add: instantiate_member_def)
  have d: "instantiate_from ty raw log = Inr (Handle_ctor raw log)"
    by (simp add: instantiate_from_def instantiate_member_def)
  from a b c builds d show ?thesis
    by blast
qed

theorem unregistered_traits_use_is_build_error_witness:
  "map_of explicit_specializations (OtherType ''int'') = None \<and>
   \<not> in_sentinel_family (OtherType ''int'') \<and>
   M_dtor \<in> {M_ctor_default, M_Valid, M_Close, M_assign, M_dtor} \<and>
   M_dtor \<in> set [M_ctor_raw, M_Get, M_dtor] \<and>
   instantiate_member (OtherType ''int'') M_dtor = Inl IncompleteType \<and>
   build (OtherType ''int'') [M_ctor_raw, M_Get, M_dtor] = Inl IncompleteType \<and>
   M_Get \<in> {M_ctor_raw, M_operator_Type, M_Get, M_address_of} \<and>
   instantiate_member (OtherType ''int'') M_Get = Inr () \<and>
   instantiate_default (OtherType ''int'') [] = Inl IncompleteType"
  using unregistered_traits_use_is_build_error
      [of "OtherType ''int''" "[]" M_dtor "[M_ctor_raw, M_Get, M_dtor]" 0]
    unregistered_traits_use_is_build_error
      [of "OtherType ''int''" "[]" M_Get "[M_ctor_raw, M_Get, M_dtor]" 0]
  by (simp add: explicit_specializations_def in_sentinel_family_def HandleTraits_def
      instantiate_default_def instantiate_member_def instantiate_traits_member_def build_def)

text \<open>
  Claim C7 as the spec words it (instantiating the wrapper for an unregistered category produces
  no binary) fails for a program that constructs the wrapper from a raw value and only reads it:
  for a type with no traits at all, and for \<^verbatim>\<open>TaggedHandle<HandleType::Semaphore>\<close>, such a program
  builds, and at run time \<^verbatim>\<open>Get\<close> returns the value given.
\<close>

theorem unregistered_raw_construction_builds:
  "map_of explicit_specializations (OtherType ''int'') = None \<and>
   \<not> in_sentinel_family (OtherType ''int'') \<and>
   build (OtherType ''int'') [M_ctor_raw, M_Get] = Inr () \<and>
   instantiate_from (OtherType ''int'') 5 [] = Inr (Handle_ctor 5 []) \<and>
   fst (Get (Handle_ctor 5 [])) = 5 \<and>
   map_of explicit_specializations (TaggedHandle Semaphore) = None \<and>
   \<not> in_sentinel_family (TaggedHandle Semaphore) \<and>
   build (TaggedHandle Semaphore) [M_ctor_raw, M_Get] = Inr () \<and>
   instantiate_from (TaggedHandle Semaphore) 42 [] = Inr (Handle_ctor 42 []) \<and>
   fst (Get (Handle_ctor 42 [])) = 42"
  by (simp add: explicit_specializations_def in_sentinel_family_def HandleValueNull_def
      HandleValueInvalid_def build_def instantiate_member_def instantiate_from_def Get_def
      Handle_ctor_def)

section \<open>Conversion and the sentinel as an argument\<close>

text \<open>
  Claim C8. The conversion to the raw type returns the held value, as Get does, and leaves the
  wrapper as it was: Close and the destructor after the conversion make the release call that
  was owed before it, the one on the held value when that value is not the sentinel.
\<close>

theorem conversion_keeps_ownership:
  "operator_Type h = Get h \<and>
   fst (operator_Type h) = m_Handle h \<and>
   snd (operator_Type h) = h \<and>
   Close T (snd (operator_Type h)) = Close T h \<and>
   Handle_dtor T (snd (operator_Type h)) = Handle_dtor T h \<and>
   Handle_dtor T (snd (operator_Type h)) = released h @ owed T h \<and>
   released (Close T (snd (operator_Type h))) = released h @ owed T h \<and>
   owed T h =
     (if m_Handle h = InvalidHandleValue T then [] else [(CloseFunction T, m_Handle h)])"
  by (simp add: operator_Type_def Get_def Handle_dtor_released Close_released owed_def
      releases_def Traits_Valid_def)

text \<open>
  Claim C9. Assigning the sentinel to a wrapper that holds a valid value is Close: the value held
  before is released once, the wrapper is invalid afterwards, and the destructor adds no
  further call, so the sentinel is never released.
\<close>

theorem assign_sentinel_is_Close:
  assumes "fst (Valid T h)"
  shows "operator_assign T (InvalidHandleValue T) h = Close T h \<and>
         released (operator_assign T (InvalidHandleValue T) h) =
           released h @ [(CloseFunction T, m_Handle h)] \<and>
         m_Handle h \<noteq> InvalidHandleValue T \<and>
         \<not> fst (Valid T (operator_assign T (InvalidHandleValue T) h)) \<and>
         Handle_dtor T (operator_assign T (InvalidHandleValue T) h) =
           released h @ [(CloseFunction T, m_Handle h)]"
proof -
  from assms have v: "Traits_Valid T (m_Handle h)"
    by (simp add: Valid_def)
  have eq: "operator_assign T (InvalidHandleValue T) h = Close T h"
    using v by (simp add: operator_assign_Close Close_valid)
  have "owed T (Close T h) = []"
    by (simp add: owed_invalid Close_not_Valid)
  then have "Handle_dtor T (Close T h) = released (Close T h)"
    by (simp add: Handle_dtor_released)
  then have "Handle_dtor T (Close T h) = released h @ [(CloseFunction T, m_Handle h)]"
    using v by (simp add: Close_valid)
  with v eq show ?thesis
    by (simp add: Close_valid Valid_def Traits_Valid_def)
qed

theorem assign_sentinel_is_Close_witness:
  "fst (Valid \<lparr>InvalidHandleValue = nullptr, CloseFunction = CloseHandle\<rparr> (Handle_ctor 42 [])) \<and>
   operator_assign \<lparr>InvalidHandleValue = nullptr, CloseFunction = CloseHandle\<rparr> nullptr
     (Handle_ctor 42 []) =
   Close \<lparr>InvalidHandleValue = nullptr, CloseFunction = CloseHandle\<rparr> (Handle_ctor 42 []) \<and>
   Handle_dtor \<lparr>InvalidHandleValue = nullptr, CloseFunction = CloseHandle\<rparr>
     (operator_assign \<lparr>InvalidHandleValue = nullptr, CloseFunction = CloseHandle\<rparr> nullptr
        (Handle_ctor 42 [])) = [(CloseHandle, 42)]"
  using assign_sentinel_is_Close
    [where T = "\<lparr>InvalidHandleValue = nullptr, CloseFunction = CloseHandle\<rparr>"
       and h = "Handle_ctor 42 []"]
  by (simp add: model_defs)

text \<open>
  Claim C10. For each of the twelve tags of the two families, the resolver produces traits whose
  release routine is \<^verbatim>\<open>CloseHandle\<close>; the tag decides the sentinel only.
\<close>

theorem tagged_close_is_CloseHandle:
  assumes "tag \<in> set tagged_categories"
  shows "\<exists>T. HandleTraits (TaggedHandle tag) = Inr T \<and>
             CloseFunction T = CloseHandle \<and>
             InvalidHandleValue T = (if HandleValueNull tag then nullptr else INVALID_HANDLE_VALUE) \<and>
             Traits_Close T handle log = log @ [(CloseHandle, handle)]"
proof -
  from assms have "HandleValueNull tag \<or> HandleValueInvalid tag"
    by (auto simp add: tagged_categories_def HandleValueNull_def HandleValueInvalid_def)
  then show ?thesis
  proof
    assume n: "HandleValueNull tag"
    then show ?thesis
      by (simp add: HandleTraits_null_family Traits_Close_def)
  next
    assume i: "HandleValueInvalid tag"
    then have "\<not> HandleValueNull tag"
      by (auto simp add: HandleValueNull_def HandleValueInvalid_def)
    with i show ?thesis
      by (simp add: HandleTraits_invalid_family Traits_Close_def)
  qed
qed

theorem tagged_close_is_CloseHandle_witness:
  "File \<in> set tagged_categories \<and> Event \<in> set tagged_categories \<and>
   HandleTraits (TaggedHandle File) =
     Inr \<lparr>InvalidHandleValue = INVALID_HANDLE_VALUE, CloseFunction = CloseHandle\<rparr> \<and>
   HandleTraits (TaggedHandle Event) =
     Inr \<lparr>InvalidHandleValue = nullptr, CloseFunction = CloseHandle\<rparr>"
  using tagged_close_is_CloseHandle [of File 0 "[]"] tagged_close_is_CloseHandle [of Event 0 "[]"]
  by (simp add: tagged_categories_def HandleTraits_def GetHandleInvalidValue_def
      HandleValueNull_def HandleValueInvalid_def)

end
